theory Spec2Isabelle
  imports Complex_Main
begin

section \<open>JavaScript values\<close>

text \<open>
  The handlers of \<^verbatim>\<open>/api/quiz\<close> and the view decide everything with three operations of
  JavaScript: truthiness (\<^verbatim>\<open>!x\<close>), \<^verbatim>\<open>typeof x\<close> and strict equality on strings. The values
  they are applied to come from the query string, from \<^verbatim>\<open>JSON.parse\<close> and from the two
  collaborators, so the model has every kind of value those can produce. A number is
  \<^verbatim>\<open>NaN\<close>, an infinity (the flag is its sign) or a finite value; the finite doubles are
  read as rationals, with \<^verbatim>\<open>0\<close> and \<^verbatim>\<open>-0\<close> both \<open>Finite 0\<close>.
\<close>

datatype jsnumber = NaN | Infinity bool | Finite rat

datatype jsval =
    JUndefined
  | JNull
  | JBool bool
  | JNum jsnumber
  | JStr string
  | JArr "jsval list"
  | JObj "(string \<times> jsval) list"

text \<open>\<^verbatim>\<open>!x\<close> is \<open>\<not> truthy x\<close>: the falsy values are \<^verbatim>\<open>undefined\<close>, \<^verbatim>\<open>null\<close>, \<^verbatim>\<open>false\<close>,
  \<^verbatim>\<open>0\<close>, \<^verbatim>\<open>NaN\<close> and the empty string. Every array and every object is truthy, the empty
  ones too.\<close>

fun truthy :: "jsval \<Rightarrow> bool" where
  "truthy JUndefined = False"
| "truthy JNull = False"
| "truthy (JBool b) = b"
| "truthy (JNum n) = (n \<noteq> NaN \<and> n \<noteq> Finite 0)"
| "truthy (JStr s) = (s \<noteq> [])"
| "truthy (JArr xs) = True"
| "truthy (JObj kvs) = True"

fun typeof :: "jsval \<Rightarrow> string" where
  "typeof JUndefined = ''undefined''"
| "typeof JNull = ''object''"
| "typeof (JBool b) = ''boolean''"
| "typeof (JNum n) = ''number''"
| "typeof (JStr s) = ''string''"
| "typeof (JArr xs) = ''object''"
| "typeof (JObj kvs) = ''object''"

text \<open>Reading a property. An object is kept as the list of its own properties; a name it
  does not have reads as \<^verbatim>\<open>undefined\<close>. The handlers read only the four names
  \<^verbatim>\<open>articleUid\<close>, \<^verbatim>\<open>userRespondedIsHuman\<close>, \<^verbatim>\<open>userRespondedIsFake\<close> and
  \<^verbatim>\<open>timeToRespond\<close>, which no array, string, number or boolean has.\<close>

fun get_prop :: "jsval \<Rightarrow> string \<Rightarrow> jsval" where
  "get_prop (JObj kvs) k = (case map_of kvs k of None \<Rightarrow> JUndefined | Some v \<Rightarrow> v)"
| "get_prop v k = JUndefined"

text \<open>
  \<^verbatim>\<open>NextResponse.json(data)\<close> sends \<^verbatim>\<open>JSON.stringify(data)\<close>, so the body a client reads is
  the value that text denotes, not always \<open>data\<close> itself. \<^verbatim>\<open>NaN\<close> and the infinities are
  written \<^verbatim>\<open>null\<close>, an \<^verbatim>\<open>undefined\<close> element of an array is written \<^verbatim>\<open>null\<close>, and a
  property whose value is \<^verbatim>\<open>undefined\<close> is left out. \<^verbatim>\<open>JSON.stringify(undefined)\<close> is
  \<^verbatim>\<open>undefined\<close>: there is no text. The handlers pass an object literal or a truthy value,
  never \<^verbatim>\<open>undefined\<close>.
\<close>

fun JSON_stringify :: "jsval \<Rightarrow> jsval" where
  "JSON_stringify JUndefined = JUndefined"
| "JSON_stringify JNull = JNull"
| "JSON_stringify (JBool b) = JBool b"
| "JSON_stringify (JNum n) = (case n of Finite r \<Rightarrow> JNum (Finite r) | _ \<Rightarrow> JNull)"
| "JSON_stringify (JStr s) = JStr s"
| "JSON_stringify (JArr xs) =
     JArr (map (\<lambda>x. if x = JUndefined then JNull else JSON_stringify x) xs)"
| "JSON_stringify (JObj kvs) =
     JObj (map (\<lambda>kv. (fst kv, JSON_stringify (snd kv)))
             (filter (\<lambda>kv. snd kv \<noteq> JUndefined) kvs))"

text \<open>The values that are JSON data as they stand: no \<^verbatim>\<open>undefined\<close>, \<^verbatim>\<open>NaN\<close> or infinity
  anywhere in them. These are the values \<^verbatim>\<open>JSON.parse\<close> yields.\<close>

fun json_data :: "jsval \<Rightarrow> bool" where
  "json_data JUndefined = False"
| "json_data JNull = True"
| "json_data (JBool b) = True"
| "json_data (JNum n) = (case n of Finite r \<Rightarrow> True | _ \<Rightarrow> False)"
| "json_data (JStr s) = True"
| "json_data (JArr xs) = list_all json_data xs"
| "json_data (JObj kvs) = list_all (\<lambda>kv. json_data (snd kv)) kvs"

section \<open>Requests, responses, exceptions and collaborators\<close>

text \<open>What a \<^verbatim>\<open>try\<close> block can throw: \<^verbatim>\<open>req.json()\<close> rejects with a \<^verbatim>\<open>SyntaxError\<close> on a
  body that is not JSON, destructuring \<^verbatim>\<open>null\<close> or \<^verbatim>\<open>undefined\<close> throws a \<^verbatim>\<open>TypeError\<close>,
  and a collaborator may throw any value.\<close>

datatype exn = SyntaxError | TypeError | Thrown jsval

text \<open>The bytes of a request body, abstracted to what \<^verbatim>\<open>JSON.parse\<close> makes of them.\<close>

datatype body_text = NotJson | JsonText jsval

text \<open>A \<^verbatim>\<open>NextRequest\<close> always carries a valid absolute URL, so \<^verbatim>\<open>new URL(req.url)\<close>
  returns; the request is kept as the key/value pairs of that URL's \<^verbatim>\<open>searchParams\<close>, in
  the order of the query string, and its body, \<open>None\<close> when \<^verbatim>\<open>req.body\<close> is \<^verbatim>\<open>null\<close>.\<close>

record request =
  url_searchParams :: "(string \<times> string) list"
  body :: "body_text option"

text \<open>A response is its status and the JSON value of its body.\<close>

record response =
  json :: jsval
  status :: nat

definition NextResponse_json :: "jsval \<Rightarrow> nat \<Rightarrow> response" where
  "NextResponse_json data st = \<lparr>json = JSON_stringify data, status = st\<rparr>"

text \<open>The object literal \<^verbatim>\<open>{ error: msg }\<close>.\<close>

definition error_obj :: "string \<Rightarrow> jsval" where
  "error_obj msg = JObj [(''error'', JStr msg)]"

text \<open>\<^verbatim>\<open>searchParams.get(name)\<close>: the first value of that name, or \<^verbatim>\<open>null\<close>.\<close>

definition searchParams_get :: "(string \<times> string) list \<Rightarrow> string \<Rightarrow> jsval" where
  "searchParams_get searchParams name =
     (case map_of searchParams name of None \<Rightarrow> JNull | Some v \<Rightarrow> JStr v)"

text \<open>\<^verbatim>\<open>!searchParams\<close>: a \<^verbatim>\<open>URLSearchParams\<close> is an object, and every object is truthy.\<close>

definition searchParams_truthy :: "(string \<times> string) list \<Rightarrow> bool" where
  "searchParams_truthy searchParams = True"

text \<open>\<^verbatim>\<open>await req.json()\<close> on a request whose body is present.\<close>

fun req_json :: "body_text \<Rightarrow> exn + jsval" where
  "req_json NotJson = Inl SyntaxError"
| "req_json (JsonText v) = Inr v"

text \<open>The pattern \<^verbatim>\<open>const { ... } = v\<close> throws when \<open>v\<close> is \<^verbatim>\<open>null\<close> or \<^verbatim>\<open>undefined\<close>.\<close>

fun destructurable :: "jsval \<Rightarrow> bool" where
  "destructurable JUndefined = False"
| "destructurable JNull = False"
| "destructurable v = True"

text \<open>
  \<^verbatim>\<open>fetchArticlesForUser\<close> and \<^verbatim>\<open>storeUserResponse\<close> live in \<^verbatim>\<open>quiz.utils\<close>, outside the
  handlers, so they are parameters: a collaborator takes the list of the arguments of the
  call and, awaited, throws or returns a value. A handler returns its response together
  with the calls it made, in order, each with the arguments it passed.
\<close>

type_synonym collaborator = "jsval list \<Rightarrow> exn + jsval"

datatype call = FetchArticlesForUser "jsval list" | StoreUserResponse "jsval list"

section \<open>The handler of GET\<close>

text \<open>The body of the \<^verbatim>\<open>try\<close> block: \<open>Inl\<close> is a throw, \<open>Inr\<close> a returned response.\<close>

definition GET_try :: "collaborator \<Rightarrow> request \<Rightarrow> (exn + response) \<times> call list" where
  "GET_try fetchArticlesForUser req =
     (let searchParams = url_searchParams req in
      if \<not> searchParams_truthy searchParams then
        (Inr (NextResponse_json (error_obj ''Invalid query parameters'') 400), [])
      else
        let userUid = searchParams_get searchParams ''userUid'';
            locale = searchParams_get searchParams ''locale''
        in
        if \<not> truthy userUid then
          (Inr (NextResponse_json (error_obj ''User ID is required'') 400), [])
        else if \<not> truthy locale then
          (Inr (NextResponse_json (error_obj ''Locale is required'') 400), [])
        else if typeof userUid \<noteq> ''string'' then
          (Inr (NextResponse_json (error_obj ''Invalid User ID'') 400), [])
        else if typeof locale \<noteq> ''string'' then
          (Inr (NextResponse_json (error_obj ''Invalid Locale'') 400), [])
        else
          (case fetchArticlesForUser [userUid] of
             Inl e \<Rightarrow> (Inl e, [FetchArticlesForUser [userUid]])
           | Inr questions \<Rightarrow>
               if \<not> truthy questions then
                 (Inr (NextResponse_json (error_obj ''Quiz questions not found'') 404),
                  [FetchArticlesForUser [userUid]])
               else
                 (Inr (NextResponse_json questions 200), [FetchArticlesForUser [userUid]])))"

text \<open>The \<^verbatim>\<open>catch\<close> clause, the same in both handlers: whatever was thrown is dropped.\<close>

fun catch_all :: "(exn + response) \<times> call list \<Rightarrow> response \<times> call list" where
  "catch_all (Inl error, calls) =
     (NextResponse_json (error_obj ''Internal Server Error'') 500, calls)"
| "catch_all (Inr res, calls) = (res, calls)"

definition GET :: "collaborator \<Rightarrow> request \<Rightarrow> response \<times> call list" where
  "GET fetchArticlesForUser req = catch_all (GET_try fetchArticlesForUser req)"

section \<open>The handler of POST\<close>

text \<open>The argument of \<^verbatim>\<open>storeUserResponse\<close>: one object of the five fields.\<close>

definition user_response :: "jsval \<Rightarrow> jsval \<Rightarrow> jsval \<Rightarrow> jsval \<Rightarrow> jsval \<Rightarrow> jsval" where
  "user_response userUid articleUid userRespondedIsHuman userRespondedIsFake timeToRespond =
     JObj [(''userUid'', userUid),
           (''articleUid'', articleUid),
           (''userRespondedIsHuman'', userRespondedIsHuman),
           (''userRespondedIsFake'', userRespondedIsFake),
           (''timeToRespond'', timeToRespond)]"

definition POST_try :: "collaborator \<Rightarrow> request \<Rightarrow> (exn + response) \<times> call list" where
  "POST_try storeUserResponse req =
     (let searchParams = url_searchParams req in
      if \<not> searchParams_truthy searchParams then
        (Inr (NextResponse_json (error_obj ''Invalid query parameters'') 400), [])
      else
        let userUid = searchParams_get searchParams ''userUid'' in
        if \<not> truthy userUid then
          (Inr (NextResponse_json (error_obj ''User ID is required'') 400), [])
        else if typeof userUid \<noteq> ''string'' then
          (Inr (NextResponse_json (error_obj ''Invalid User ID'') 400), [])
        else
          (case body req of
             None \<Rightarrow> (Inr (NextResponse_json (error_obj ''Invalid request body'') 400), [])
           | Some text \<Rightarrow>
              (case req_json text of
                 Inl e \<Rightarrow> (Inl e, [])
               | Inr parsed \<Rightarrow>
                  if \<not> destructurable parsed then (Inl TypeError, [])
                  else
                    let articleUid = get_prop parsed ''articleUid'';
                        userRespondedIsHuman = get_prop parsed ''userRespondedIsHuman'';
                        userRespondedIsFake = get_prop parsed ''userRespondedIsFake'';
                        timeToRespond = get_prop parsed ''timeToRespond''
                    in
                    if \<not> truthy articleUid then
                      (Inr (NextResponse_json (error_obj ''Article ID is required'') 400), [])
                    else if typeof articleUid \<noteq> ''string'' then
                      (Inr (NextResponse_json (error_obj ''Invalid Article ID'') 400), [])
                    else if typeof userRespondedIsHuman \<noteq> ''boolean'' then
                      (Inr (NextResponse_json (error_obj ''Invalid user response'') 400), [])
                    else if typeof userRespondedIsFake \<noteq> ''boolean'' then
                      (Inr (NextResponse_json (error_obj ''Invalid user response'') 400), [])
                    else if typeof timeToRespond \<noteq> ''number'' then
                      (Inr (NextResponse_json (error_obj ''Invalid time to respond'') 400), [])
                    else
                      let arg = user_response userUid articleUid userRespondedIsHuman
                                  userRespondedIsFake timeToRespond
                      in
                      (case storeUserResponse [arg] of
                         Inl e \<Rightarrow> (Inl e, [StoreUserResponse [arg]])
                       | Inr isCorrect \<Rightarrow>
                           if typeof isCorrect \<noteq> ''boolean'' then
                             (Inr (NextResponse_json (error_obj ''User response not stored'') 404),
                              [StoreUserResponse [arg]])
                           else
                             (Inr (NextResponse_json (JObj [(''isCorrect'', isCorrect)]) 200),
                              [StoreUserResponse [arg]])))))"

definition POST :: "collaborator \<Rightarrow> request \<Rightarrow> response \<times> call list" where
  "POST storeUserResponse req = catch_all (POST_try storeUserResponse req)"

section \<open>The view\<close>

text \<open>
  \<^verbatim>\<open>QuizView\<close> is a function of its props. The two selectors are \<^verbatim>\<open>"human" | "ai" | null\<close>
  and \<^verbatim>\<open>"real" | "fake" | null\<close>; the component tests them for truthiness and compares them
  with \<^verbatim>\<open>===\<close> as the strings they are, so the model reads them as JavaScript values.
\<close>

datatype humanAi = OptHuman | OptAi

datatype realFake = OptReal | OptFake

record article =
  uid :: string
  headline :: string
  content :: string

record QuizSession =
  articles :: "article list"
  currentArticleIndex :: nat

record QuizViewProps =
  quizSession :: QuizSession
  humanAiOptionChecked :: "humanAi option"
  realFakeOptionChecked :: "realFake option"

text \<open>The argument of \<^verbatim>\<open>onSubmitCallback\<close>.\<close>

record submission =
  humanOptionSelected :: bool
  isFakeSelected :: bool

fun humanAi_js :: "humanAi option \<Rightarrow> jsval" where
  "humanAi_js None = JNull"
| "humanAi_js (Some OptHuman) = JStr ''human''"
| "humanAi_js (Some OptAi) = JStr ''ai''"

fun realFake_js :: "realFake option \<Rightarrow> jsval" where
  "realFake_js None = JNull"
| "realFake_js (Some OptReal) = JStr ''real''"
| "realFake_js (Some OptFake) = JStr ''fake''"

text \<open>The \<^verbatim>\<open>disabled\<close> attribute of the submit button.\<close>

definition submit_disabled :: "QuizViewProps \<Rightarrow> bool" where
  "submit_disabled props =
     (\<not> truthy (humanAi_js (humanAiOptionChecked props))
      \<or> \<not> truthy (realFake_js (realFakeOptionChecked props)))"

text \<open>The \<^verbatim>\<open>onClick\<close> handler of the submit button; the result lists the calls of
  \<^verbatim>\<open>onSubmitCallback\<close> it makes, each with its argument.\<close>

definition submit_onClick :: "QuizViewProps \<Rightarrow> submission list" where
  "submit_onClick props =
     (if truthy (humanAi_js (humanAiOptionChecked props))
         \<and> truthy (realFake_js (realFakeOptionChecked props))
      then [\<lparr>humanOptionSelected = (humanAi_js (humanAiOptionChecked props) = JStr ''human''),
             isFakeSelected = (realFake_js (realFakeOptionChecked props) = JStr ''fake'')\<rparr>]
      else [])"

text \<open>A click on the rendered button: a disabled button dispatches no click, an enabled
  one runs the handler once.\<close>

definition click_submit :: "QuizViewProps \<Rightarrow> submission list" where
  "click_submit props = (if submit_disabled props then [] else submit_onClick props)"

section \<open>Requests that pass validation\<close>

text \<open>
  A GET request passes validation when \<^verbatim>\<open>userUid\<close> and \<^verbatim>\<open>locale\<close> are both in the query
  string and not empty. The values are parameters of the predicate, so that a theorem can
  name them.
\<close>

definition valid_query :: "request \<Rightarrow> string \<Rightarrow> string \<Rightarrow> bool" where
  "valid_query req userUid locale =
     (map_of (url_searchParams req) ''userUid'' = Some userUid \<and> userUid \<noteq> []
      \<and> map_of (url_searchParams req) ''locale'' = Some locale \<and> locale \<noteq> [])"

text \<open>
  A POST request passes validation when \<^verbatim>\<open>userUid\<close> is in the query string and not
  empty, and its body is JSON with \<^verbatim>\<open>articleUid\<close> a non-empty string,
  \<^verbatim>\<open>userRespondedIsHuman\<close> and \<^verbatim>\<open>userRespondedIsFake\<close> booleans and \<^verbatim>\<open>timeToRespond\<close> a
  number.
\<close>

definition valid_submission ::
  "request \<Rightarrow> string \<Rightarrow> string \<Rightarrow> bool \<Rightarrow> bool \<Rightarrow> jsnumber \<Rightarrow> bool" where
  "valid_submission req userUid articleUid isHuman isFake t =
     (map_of (url_searchParams req) ''userUid'' = Some userUid \<and> userUid \<noteq> []
      \<and> (case body req of
            Some (JsonText parsed) \<Rightarrow>
              get_prop parsed ''articleUid'' = JStr articleUid \<and> articleUid \<noteq> []
              \<and> get_prop parsed ''userRespondedIsHuman'' = JBool isHuman
              \<and> get_prop parsed ''userRespondedIsFake'' = JBool isFake
              \<and> get_prop parsed ''timeToRespond'' = JNum t
          | _ \<Rightarrow> False))"

text \<open>The two responses every path but success builds: a 400 with a message, and the 500
  of the \<^verbatim>\<open>catch\<close> clause.\<close>

definition bad_request :: "string \<Rightarrow> response" where
  "bad_request msg = NextResponse_json (error_obj msg) 400"

definition internal_server_error :: response where
  "internal_server_error = NextResponse_json (error_obj ''Internal Server Error'') 500"

section \<open>The validations of POST, as the specification lists them\<close>

text \<open>
  The specification gives the validations of POST as a list, applied in order, the first
  failure deciding the response. \<open>POST_checks\<close> is that list for a request: each entry
  is whether the check passes and the response of its failure. Reading the body is an
  entry of its own between the presence of the body and the checks of its fields, and its
  failure is the response of the \<^verbatim>\<open>catch\<close> clause. \<open>parsed_body\<close> is the value the body
  parses to and \<open>submitted\<close> the object the fields make up.
\<close>

definition first_failing :: "(bool \<times> 'a) list \<Rightarrow> 'a option" where
  "first_failing checks = map_option snd (find (\<lambda>c. \<not> fst c) checks)"

definition parsed_body :: "request \<Rightarrow> jsval" where
  "parsed_body req = (case body req of Some (JsonText v) \<Rightarrow> v | _ \<Rightarrow> JUndefined)"

definition POST_checks :: "request \<Rightarrow> (bool \<times> response) list" where
  "POST_checks req =
     (let userUid = searchParams_get (url_searchParams req) ''userUid'';
          parsed = parsed_body req
      in
      [(searchParams_truthy (url_searchParams req), bad_request ''Invalid query parameters''),
       (truthy userUid, bad_request ''User ID is required''),
       (typeof userUid = ''string'', bad_request ''Invalid User ID''),
       (body req \<noteq> None, bad_request ''Invalid request body''),
       (body req \<noteq> Some NotJson \<and> destructurable parsed, internal_server_error),
       (truthy (get_prop parsed ''articleUid''), bad_request ''Article ID is required''),
       (typeof (get_prop parsed ''articleUid'') = ''string'', bad_request ''Invalid Article ID''),
       (typeof (get_prop parsed ''userRespondedIsHuman'') = ''boolean'',
        bad_request ''Invalid user response''),
       (typeof (get_prop parsed ''userRespondedIsFake'') = ''boolean'',
        bad_request ''Invalid user response''),
       (typeof (get_prop parsed ''timeToRespond'') = ''number'',
        bad_request ''Invalid time to respond'')])"

definition submitted :: "request \<Rightarrow> jsval" where
  "submitted req =
     user_response (searchParams_get (url_searchParams req) ''userUid'')
       (get_prop (parsed_body req) ''articleUid'')
       (get_prop (parsed_body req) ''userRespondedIsHuman'')
       (get_prop (parsed_body req) ''userRespondedIsFake'')
       (get_prop (parsed_body req) ''timeToRespond'')"

section \<open>Inputs used in the examples\<close>

definition two_questions :: jsval where
  "two_questions =
     JArr [JObj [(''uid'', JStr ''a1''), (''headline'', JStr ''h1''), (''content'', JStr ''c1'')],
           JObj [(''uid'', JStr ''a2''), (''headline'', JStr ''h2''), (''content'', JStr ''c2'')]]"

definition fetch_two :: collaborator where
  "fetch_two args = Inr two_questions"

definition fetch_empty :: collaborator where
  "fetch_empty args = Inr (JArr [])"

definition fetch_gaps :: collaborator where
  "fetch_gaps args = Inr (JArr [JUndefined, JNum NaN])"

definition fetch_null :: collaborator where
  "fetch_null args = Inr JNull"

definition fetch_throws :: collaborator where
  "fetch_throws args = Inl (Thrown (JStr ''connection refused by db-3''))"

definition store_true :: collaborator where
  "store_true args = Inr (JBool True)"



definition store_throws :: collaborator where
  "store_throws args = Inl (Thrown (JStr ''duplicate key in responses''))"

definition get_ok :: request where
  "get_ok = \<lparr>url_searchParams = [(''userUid'', ''u1''), (''locale'', ''en'')], body = None\<rparr>"

definition get_ok_de :: request where
  "get_ok_de = \<lparr>url_searchParams = [(''userUid'', ''u1''), (''locale'', ''de'')], body = None\<rparr>"

definition get_no_userUid :: request where
  "get_no_userUid = \<lparr>url_searchParams = [(''locale'', ''en'')], body = None\<rparr>"

definition get_no_locale :: request where
  "get_no_locale = \<lparr>url_searchParams = [(''userUid'', ''u1''), (''page'', ''2'')], body = None\<rparr>"

definition get_empty_userUid :: request where
  "get_empty_userUid = \<lparr>url_searchParams = [(''userUid'', []), (''locale'', ''en'')], body = None\<rparr>"

definition get_empty_locale :: request where
  "get_empty_locale = \<lparr>url_searchParams = [(''userUid'', ''u1''), (''locale'', [])], body = None\<rparr>"

definition get_nothing :: request where
  "get_nothing = \<lparr>url_searchParams = [], body = None\<rparr>"

definition answer :: "jsval \<Rightarrow> jsval \<Rightarrow> jsval \<Rightarrow> jsval \<Rightarrow> jsval" where
  "answer articleUid userRespondedIsHuman userRespondedIsFake timeToRespond =
     JObj [(''articleUid'', articleUid),
           (''userRespondedIsHuman'', userRespondedIsHuman),
           (''userRespondedIsFake'', userRespondedIsFake),
           (''timeToRespond'', timeToRespond)]"

definition post_with :: "jsval \<Rightarrow> request" where
  "post_with v = \<lparr>url_searchParams = [(''userUid'', ''u1'')], body = Some (JsonText v)\<rparr>"

definition post_ok :: request where
  "post_ok = post_with (answer (JStr ''a1'') (JBool True) (JBool False) (JNum (Finite 1500)))"

definition post_no_userUid :: request where
  "post_no_userUid =
     \<lparr>url_searchParams = [],
      body = Some (JsonText (answer (JStr ''a1'') (JBool True) (JBool False) (JNum (Finite 1500))))\<rparr>"

definition post_no_body :: request where
  "post_no_body = \<lparr>url_searchParams = [(''userUid'', ''u1'')], body = None\<rparr>"

definition post_not_json :: request where
  "post_not_json = \<lparr>url_searchParams = [(''userUid'', ''u1'')], body = Some NotJson\<rparr>"

definition post_null :: request where
  "post_null = post_with JNull"

definition post_no_article :: request where
  "post_no_article = post_with (JObj [(''timeToRespond'', JStr ''1500'')])"

definition post_article_number :: request where
  "post_article_number =
     post_with (answer (JNum (Finite 7)) (JBool True) (JBool False) (JNum (Finite 1500)))"

definition post_human_string :: request where
  "post_human_string =
     post_with (answer (JStr ''a1'') (JStr ''yes'') (JBool False) (JNum (Finite 1500)))"

definition post_fake_string :: request where
  "post_fake_string =
     post_with (answer (JStr ''a1'') (JBool True) (JStr ''no'') (JStr ''1500''))"

definition post_human_time_strings :: request where
  "post_human_time_strings =
     post_with (answer (JStr ''a1'') (JStr ''yes'') (JBool False) (JStr ''1500''))"

definition post_time_string :: request where
  "post_time_string =
     post_with (answer (JStr ''a1'') (JBool True) (JBool False) (JStr ''1500''))"

definition three_articles :: "article list" where
  "three_articles =
     [\<lparr>uid = ''a1'', headline = ''h1'', content = ''c1''\<rparr>,
      \<lparr>uid = ''a2'', headline = ''h2'', content = ''c2''\<rparr>,
      \<lparr>uid = ''a3'', headline = ''h3'', content = ''c3''\<rparr>]"

definition props_ai_real :: QuizViewProps where
  "props_ai_real =
     \<lparr>quizSession = \<lparr>articles = three_articles, currentArticleIndex = 1\<rparr>,
      humanAiOptionChecked = Some OptAi,
      realFakeOptionChecked = Some OptReal\<rparr>"

definition props_human_only :: QuizViewProps where
  "props_human_only =
     \<lparr>quizSession = \<lparr>articles = three_articles, currentArticleIndex = 1\<rparr>,
      humanAiOptionChecked = Some OptHuman,
      realFakeOptionChecked = None\<rparr>"

section \<open>Shared facts\<close>

lemma truthy_humanAi_js: "truthy (humanAi_js h) = (h \<noteq> None)"
  by (cases h rule: humanAi_js.cases) simp_all

lemma truthy_realFake_js: "truthy (realFake_js r) = (r \<noteq> None)"
  by (cases r rule: realFake_js.cases) simp_all

lemma humanAi_js_is_human: "(humanAi_js h = JStr ''human'') = (h = Some OptHuman)"
  by (cases h rule: humanAi_js.cases) simp_all

lemma realFake_js_is_fake: "(realFake_js r = JStr ''fake'') = (r = Some OptFake)"
  by (cases r rule: realFake_js.cases) simp_all

lemma json_data_not_undefined: "json_data v \<Longrightarrow> v \<noteq> JUndefined"
  by (cases v) simp_all

lemma JSON_stringify_json_data: "json_data v \<Longrightarrow> JSON_stringify v = v"
proof (induction v)
  case (JNum n)
  then show ?case by (cases n) simp_all
next
  case (JArr xs)
  then have "map (\<lambda>x. if x = JUndefined then JNull else JSON_stringify x) xs = xs"
    by (intro map_idI) (auto simp add: list_all_iff)
  then show ?case by simp
next
  case (JObj kvs)
  have f: "filter (\<lambda>kv. snd kv \<noteq> JUndefined) kvs = kvs"
    using JObj.prems by (auto simp add: list_all_iff filter_id_conv dest: json_data_not_undefined)
  have "map (\<lambda>kv. (fst kv, JSON_stringify (snd kv))) kvs = kvs"
  proof (intro map_idI)
    fix kv assume m: "kv \<in> set kvs"
    then have "json_data (snd kv)" using JObj.prems by (simp add: list_all_iff)
    moreover have "snd kv \<in> Basic_BNFs.snds kv" by (cases kv) simp
    ultimately have "JSON_stringify (snd kv) = snd kv" using JObj.IH m by blast
    then show "(fst kv, JSON_stringify (snd kv)) = kv" by simp
  qed
  with f show ?case by simp
qed simp_all

lemma NextResponse_json_json_data:
  "json_data data \<Longrightarrow> NextResponse_json data st = \<lparr>json = data, status = st\<rparr>"
  by (simp add: NextResponse_json_def JSON_stringify_json_data)

lemma JSON_stringify_error_obj: "JSON_stringify (error_obj msg) = error_obj msg"
  by (simp add: error_obj_def)

lemma falsy_searchParams_get:
  "(\<not> truthy (searchParams_get sp k)) = (map_of sp k = None \<or> map_of sp k = Some [])"
  by (simp add: searchParams_get_def split: option.splits)

lemma typeof_searchParams_get:
  "truthy (searchParams_get sp k) \<Longrightarrow> typeof (searchParams_get sp k) = ''string''"
  by (simp add: searchParams_get_def split: option.splits)

lemma GET_valid:
  assumes "valid_query req userUid locale"
  shows "GET fetch req =
    (case fetch [JStr userUid] of
       Inl e \<Rightarrow> (internal_server_error, [FetchArticlesForUser [JStr userUid]])
     | Inr questions \<Rightarrow>
         (if truthy questions then NextResponse_json questions 200
          else NextResponse_json (error_obj ''Quiz questions not found'') 404,
          [FetchArticlesForUser [JStr userUid]]))"
  using assms
  by (simp add: valid_query_def GET_def GET_try_def searchParams_truthy_def
      searchParams_get_def internal_server_error_def Let_def split: sum.splits)

lemma typeof_string: "(typeof v = ''string'') = (\<exists>s. v = JStr s)"
  by (cases v) simp_all

lemma typeof_boolean: "(typeof v = ''boolean'') = (\<exists>b. v = JBool b)"
  by (cases v) simp_all

lemma typeof_number: "(typeof v = ''number'') = (\<exists>n. v = JNum n)"
  by (cases v) simp_all

lemma get_prop_JStr_destructurable: "get_prop v k = JStr s \<Longrightarrow> destructurable v"
  by (cases v) simp_all

lemma POST_after_checks:
  "POST store req =
     (case first_failing (POST_checks req) of
        Some r \<Rightarrow> (r, [])
      | None \<Rightarrow>
          (case store [submitted req] of
             Inl e \<Rightarrow> (internal_server_error, [StoreUserResponse [submitted req]])
           | Inr isCorrect \<Rightarrow>
               (if typeof isCorrect = ''boolean''
                then NextResponse_json (JObj [(''isCorrect'', isCorrect)]) 200
                else NextResponse_json (error_obj ''User response not stored'') 404,
                [StoreUserResponse [submitted req]])))"
proof (cases "body req")
  case None
  then show ?thesis
    by (simp add: POST_def POST_try_def POST_checks_def first_failing_def Let_def
        bad_request_def internal_server_error_def searchParams_truthy_def)
next
  case (Some bt)
  show ?thesis
  proof (cases bt)
    case NotJson
    with Some show ?thesis
      by (simp add: POST_def POST_try_def POST_checks_def first_failing_def Let_def
          bad_request_def internal_server_error_def searchParams_truthy_def)
  next
    case (JsonText v)
    with Some have p: "parsed_body req = v" and b: "body req = Some (JsonText v)"
      by (simp_all add: parsed_body_def)
    show ?thesis
      by (simp add: POST_def POST_try_def POST_checks_def first_failing_def Let_def p b
          submitted_def bad_request_def internal_server_error_def searchParams_truthy_def
          split: sum.splits)
  qed
qed

lemma valid_submission_checks:
  "(first_failing (POST_checks req) = None)
     = (\<exists>userUid articleUid isHuman isFake t.
          valid_submission req userUid articleUid isHuman isFake t)"
  by (auto simp add: first_failing_def POST_checks_def Let_def valid_submission_def
      searchParams_truthy_def searchParams_get_def parsed_body_def
      typeof_string typeof_boolean typeof_number
      split: option.splits body_text.splits dest: get_prop_JStr_destructurable)

lemma valid_submission_submitted:
  "valid_submission req userUid articleUid isHuman isFake t \<Longrightarrow>
     submitted req
       = user_response (JStr userUid) (JStr articleUid) (JBool isHuman) (JBool isFake) (JNum t)"
  by (auto simp add: valid_submission_def submitted_def searchParams_get_def parsed_body_def
      split: option.splits body_text.splits)

lemma first_failing_status:
  "first_failing (POST_checks req) = Some r \<Longrightarrow>
     (status r = 400 \<and> (\<exists>msg. r = bad_request msg)) \<or> r = internal_server_error"
  by (auto simp add: first_failing_def POST_checks_def Let_def bad_request_def
      NextResponse_json_def split: if_splits)

lemma status_first_failing:
  "first_failing (POST_checks req) = Some r \<Longrightarrow> status r = 500 \<Longrightarrow> r = internal_server_error"
  using first_failing_status [of req r] by auto

lemma ff_post_no_userUid:
  "first_failing (POST_checks post_no_userUid) = Some (bad_request ''User ID is required'')"
  by (simp add: first_failing_def POST_checks_def Let_def searchParams_truthy_def
      searchParams_get_def parsed_body_def post_no_userUid_def)

lemma ff_post_no_body:
  "first_failing (POST_checks post_no_body) = Some (bad_request ''Invalid request body'')"
  by (simp add: first_failing_def POST_checks_def Let_def searchParams_truthy_def
      searchParams_get_def parsed_body_def post_no_body_def)

lemma ff_post_no_article:
  "first_failing (POST_checks post_no_article) = Some (bad_request ''Article ID is required'')"
  by (simp add: first_failing_def POST_checks_def Let_def searchParams_truthy_def
      searchParams_get_def parsed_body_def post_no_article_def post_with_def)

lemma ff_post_article_number:
  "first_failing (POST_checks post_article_number) = Some (bad_request ''Invalid Article ID'')"
  by (simp add: first_failing_def POST_checks_def Let_def searchParams_truthy_def
      searchParams_get_def parsed_body_def post_article_number_def post_with_def answer_def)

lemma ff_post_human_string:
  "first_failing (POST_checks post_human_string) = Some (bad_request ''Invalid user response'')"
  by (simp add: first_failing_def POST_checks_def Let_def searchParams_truthy_def
      searchParams_get_def parsed_body_def post_human_string_def post_with_def answer_def)

lemma ff_post_fake_string:
  "first_failing (POST_checks post_fake_string) = Some (bad_request ''Invalid user response'')"
  by (simp add: first_failing_def POST_checks_def Let_def searchParams_truthy_def
      searchParams_get_def parsed_body_def post_fake_string_def post_with_def answer_def)

lemma ff_post_time_string:
  "first_failing (POST_checks post_time_string) = Some (bad_request ''Invalid time to respond'')"
  by (simp add: first_failing_def POST_checks_def Let_def searchParams_truthy_def
      searchParams_get_def parsed_body_def post_time_string_def post_with_def answer_def)

lemma ff_post_ok: "first_failing (POST_checks post_ok) = None"
  by (simp add: first_failing_def POST_checks_def Let_def searchParams_truthy_def
      searchParams_get_def parsed_body_def post_ok_def post_with_def answer_def)

lemma submitted_post_ok:
  "submitted post_ok
     = user_response (JStr ''u1'') (JStr ''a1'') (JBool True) (JBool False) (JNum (Finite 1500))"
  by (simp add: submitted_def searchParams_get_def parsed_body_def post_ok_def post_with_def
      answer_def)

lemma valid_post_ok: "valid_submission post_ok ''u1'' ''a1'' True False (Finite 1500)"
  by (simp add: valid_submission_def post_ok_def post_with_def answer_def)

lemma POST_valid:
  assumes "valid_submission req userUid articleUid isHuman isFake t"
  shows "POST store req =
    (case store [user_response (JStr userUid) (JStr articleUid) (JBool isHuman) (JBool isFake)
                   (JNum t)] of
       Inl e \<Rightarrow>
         (internal_server_error,
          [StoreUserResponse [user_response (JStr userUid) (JStr articleUid) (JBool isHuman)
             (JBool isFake) (JNum t)]])
     | Inr isCorrect \<Rightarrow>
         (if typeof isCorrect = ''boolean''
          then NextResponse_json (JObj [(''isCorrect'', isCorrect)]) 200
          else NextResponse_json (error_obj ''User response not stored'') 404,
          [StoreUserResponse [user_response (JStr userUid) (JStr articleUid) (JBool isHuman)
             (JBool isFake) (JNum t)]]))"
proof -
  from assms have "first_failing (POST_checks req) = None"
    using valid_submission_checks by blast
  then show ?thesis
    by (simp add: POST_after_checks valid_submission_submitted [OF assms] split: sum.splits)
qed

lemma bad_request_inject: "(bad_request m = bad_request m') = (m = m')"
  by (simp add: bad_request_def NextResponse_json_def error_obj_def)

lemma json_bad_request: "json (bad_request m) = JObj [(''error'', JStr m)]"
  by (simp add: bad_request_def NextResponse_json_def error_obj_def)

lemma status_bad_request: "status (bad_request m) = 400"
  by (simp add: bad_request_def NextResponse_json_def)

lemma GET_try_throws:
  "GET_try fetch_throws get_ok
     = (Inl (Thrown (JStr ''connection refused by db-3'')), [FetchArticlesForUser [JStr ''u1'']])"
  by (simp add: GET_try_def Let_def searchParams_truthy_def searchParams_get_def get_ok_def
      fetch_throws_def)

lemma POST_try_not_json: "POST_try store_true post_not_json = (Inl SyntaxError, [])"
  by (simp add: POST_try_def Let_def searchParams_truthy_def searchParams_get_def
      post_not_json_def)

lemma status_post_time_string: "status (fst (POST store_true post_time_string)) = 400"
  by (simp add: POST_after_checks ff_post_time_string status_bad_request)

lemma calls_post_ok: "snd (POST store_true post_ok) \<noteq> []"
  by (simp add: POST_after_checks ff_post_ok store_true_def)

section \<open>The view: submission\<close>

text \<open>
  Claim C3. The submit control is disabled when \<^verbatim>\<open>humanAiOptionChecked\<close> is null or
  \<^verbatim>\<open>realFakeOptionChecked\<close> is null, and enabled exactly when both are set. A click with
  both set calls \<^verbatim>\<open>onSubmitCallback\<close> exactly once, with \<^verbatim>\<open>humanOptionSelected\<close> true
  exactly for \<^verbatim>\<open>"human"\<close> and \<^verbatim>\<open>isFakeSelected\<close> true exactly for \<^verbatim>\<open>"fake"\<close>. With
  \<^verbatim>\<open>"ai"\<close> and \<^verbatim>\<open>"real"\<close> selected, in a session of three articles at index 1, the callback
  receives false and false.
\<close>

theorem submit_enabled_iff_both_selected:
  "submit_disabled props
     = (humanAiOptionChecked props = None \<or> realFakeOptionChecked props = None)
   \<and> click_submit props
     = (if humanAiOptionChecked props = None \<or> realFakeOptionChecked props = None then []
        else [\<lparr>humanOptionSelected = (humanAiOptionChecked props = Some OptHuman),
               isFakeSelected = (realFakeOptionChecked props = Some OptFake)\<rparr>])
   \<and> click_submit props_ai_real
     = [\<lparr>humanOptionSelected = False, isFakeSelected = False\<rparr>]"
  by (simp add: submit_disabled_def click_submit_def submit_onClick_def
      truthy_humanAi_js truthy_realFake_js humanAi_js_is_human realFake_js_is_fake
      props_ai_real_def)

theorem submit_enabled_iff_both_selected_witness:
  "\<not> submit_disabled props_ai_real
   \<and> submit_disabled props_human_only
   \<and> click_submit props_human_only = []
   \<and> length (click_submit props_ai_real) = 1"
  using submit_enabled_iff_both_selected [of props_ai_real]
    submit_enabled_iff_both_selected [of props_human_only]
  by (simp add: props_ai_real_def props_human_only_def)

text \<open>
  Claim C9. \<^verbatim>\<open>onSubmitCallback\<close> is never called while a selector is null: the click
  handler itself tests both selectors before it calls, so it makes no call even when it
  is run on a button whose \<^verbatim>\<open>disabled\<close> attribute is ignored.
\<close>

theorem onClick_rechecks_selectors:
  "(humanAiOptionChecked props = None \<or> realFakeOptionChecked props = None)
     = (submit_onClick props = [])"
  by (simp add: submit_onClick_def truthy_humanAi_js truthy_realFake_js)

theorem onClick_rechecks_selectors_witness:
  "realFakeOptionChecked props_human_only = None \<and> submit_onClick props_human_only = []"
  using onClick_rechecks_selectors [of props_human_only]
  by (simp add: props_human_only_def)

section \<open>GET\<close>

text \<open>
  Claim C6. GET checks its query parameters in order, \<^verbatim>\<open>userUid\<close> first, each with
  \<^verbatim>\<open>!value\<close>, which rejects a parameter that is missing (\<^verbatim>\<open>get\<close> returns \<^verbatim>\<open>null\<close>) and one
  that is present and empty alike. A request whose \<^verbatim>\<open>userUid\<close> is missing or empty gets 400
  with \<^verbatim>\<open>{error: "User ID is required"}\<close>, whatever else the query string holds, \<^verbatim>\<open>locale\<close>
  or not. A request with a \<^verbatim>\<open>userUid\<close> whose \<^verbatim>\<open>locale\<close> is missing or empty gets 400 with
  \<^verbatim>\<open>{error: "Locale is required"}\<close>, whatever else the query string holds. In both cases the
  collaborator is not called.
\<close>

theorem GET_checks_userUid_then_locale:
  "(\<not> truthy (searchParams_get (url_searchParams req) ''userUid'')
      \<longrightarrow> GET fetch req = (bad_request ''User ID is required'', []))
   \<and> (truthy (searchParams_get (url_searchParams req) ''userUid'')
      \<and> \<not> truthy (searchParams_get (url_searchParams req) ''locale'')
      \<longrightarrow> GET fetch req = (bad_request ''Locale is required'', []))
   \<and> (\<not> truthy (searchParams_get (url_searchParams req) name))
       = (map_of (url_searchParams req) name = None
          \<or> map_of (url_searchParams req) name = Some [])
   \<and> bad_request ''User ID is required''
       = \<lparr>json = JObj [(''error'', JStr ''User ID is required'')], status = 400\<rparr>
   \<and> bad_request ''Locale is required''
       = \<lparr>json = JObj [(''error'', JStr ''Locale is required'')], status = 400\<rparr>"
  by (simp add: GET_def GET_try_def searchParams_truthy_def Let_def bad_request_def
      falsy_searchParams_get NextResponse_json_def error_obj_def)

text \<open>Requests with no \<^verbatim>\<open>userUid\<close>, with nothing at all, with an empty \<^verbatim>\<open>userUid\<close>, with
  \<^verbatim>\<open>userUid\<close> and another parameter but no \<^verbatim>\<open>locale\<close>, and with an empty \<^verbatim>\<open>locale\<close>.\<close>

theorem GET_checks_userUid_then_locale_witness:
  "\<not> truthy (searchParams_get (url_searchParams get_no_userUid) ''userUid'')
   \<and> GET fetch_two get_no_userUid = (bad_request ''User ID is required'', [])
   \<and> \<not> truthy (searchParams_get (url_searchParams get_nothing) ''userUid'')
   \<and> GET fetch_two get_nothing = (bad_request ''User ID is required'', [])
   \<and> \<not> truthy (searchParams_get (url_searchParams get_empty_userUid) ''userUid'')
   \<and> GET fetch_two get_empty_userUid = (bad_request ''User ID is required'', [])
   \<and> truthy (searchParams_get (url_searchParams get_no_locale) ''userUid'')
   \<and> \<not> truthy (searchParams_get (url_searchParams get_no_locale) ''locale'')
   \<and> GET fetch_two get_no_locale = (bad_request ''Locale is required'', [])
   \<and> truthy (searchParams_get (url_searchParams get_empty_locale) ''userUid'')
   \<and> \<not> truthy (searchParams_get (url_searchParams get_empty_locale) ''locale'')
   \<and> GET fetch_two get_empty_locale = (bad_request ''Locale is required'', [])"
  using GET_checks_userUid_then_locale [where req = get_no_userUid and fetch = fetch_two]
    GET_checks_userUid_then_locale [where req = get_nothing and fetch = fetch_two]
    GET_checks_userUid_then_locale [where req = get_empty_userUid and fetch = fetch_two]
    GET_checks_userUid_then_locale [where req = get_no_locale and fetch = fetch_two]
    GET_checks_userUid_then_locale [where req = get_empty_locale and fetch = fetch_two]
  by (simp add: get_no_userUid_def get_nothing_def get_empty_userUid_def get_no_locale_def
      get_empty_locale_def searchParams_get_def)

text \<open>
  Claim C4. A GET request that passes validation makes one call of
  \<^verbatim>\<open>fetchArticlesForUser\<close>, whose only argument is \<^verbatim>\<open>userUid\<close>: \<^verbatim>\<open>locale\<close> is validated and
  not forwarded. Hence two valid requests of the same user get the same response and make
  the same call, whatever their locales.
\<close>

theorem GET_forwards_userUid_only:
  "valid_query req userUid loc \<and> valid_query req' userUid loc' \<longrightarrow>
     snd (GET fetch req) = [FetchArticlesForUser [JStr userUid]]
     \<and> GET fetch req' = GET fetch req"
proof (intro impI conjI)
  assume a: "valid_query req userUid loc \<and> valid_query req' userUid loc'"
  then have v: "valid_query req userUid loc" and v': "valid_query req' userUid loc'"
    by simp_all
  show "snd (GET fetch req) = [FetchArticlesForUser [JStr userUid]]"
    by (simp add: GET_valid [OF v] split: sum.splits)
  show "GET fetch req' = GET fetch req"
    by (simp add: GET_valid [OF v] GET_valid [OF v'])
qed

theorem GET_forwards_userUid_only_witness:
  "valid_query get_ok ''u1'' ''en''
   \<and> valid_query get_ok_de ''u1'' ''de''
   \<and> snd (GET fetch_two get_ok) = [FetchArticlesForUser [JStr ''u1'']]
   \<and> GET fetch_two get_ok_de = GET fetch_two get_ok"
proof -
  have v: "valid_query get_ok ''u1'' ''en'' \<and> valid_query get_ok_de ''u1'' ''de''"
    by (simp add: valid_query_def get_ok_def get_ok_de_def)
  with GET_forwards_userUid_only [where req = get_ok and req' = get_ok_de
      and userUid = "''u1''" and loc = "''en''" and loc' = "''de''" and fetch = fetch_two]
  show ?thesis by blast
qed

text \<open>
  Claim C2, as amended. For a GET request that passes validation: when the collaborator
  returns a falsy value (\<^verbatim>\<open>undefined\<close>, \<^verbatim>\<open>null\<close>, \<^verbatim>\<open>false\<close>, \<^verbatim>\<open>0\<close>, \<^verbatim>\<open>NaN\<close>, the empty
  string) the response is 404 with \<^verbatim>\<open>{error: "Quiz questions not found"}\<close>. When it returns
  a collection, empty or not, the response is 200 and its body is the JSON serialisation
  of the collection; so a collection of JSON data (nothing \<^verbatim>\<open>undefined\<close>, no \<^verbatim>\<open>NaN\<close> and no
  infinity in it), the empty array included, comes back as the body unchanged.
\<close>

theorem GET_found_or_not_found:
  "valid_query req userUid loc \<and> fetch [JStr userUid] = Inr questions \<longrightarrow>
     (\<not> truthy questions \<longrightarrow>
        fst (GET fetch req)
          = \<lparr>json = JObj [(''error'', JStr ''Quiz questions not found'')], status = 404\<rparr>)
     \<and> (questions = JArr xs \<longrightarrow>
        fst (GET fetch req) = \<lparr>json = JSON_stringify (JArr xs), status = 200\<rparr>)
     \<and> (questions = JArr xs \<and> json_data (JArr xs) \<longrightarrow>
        fst (GET fetch req) = \<lparr>json = JArr xs, status = 200\<rparr>)"
proof (intro impI)
  assume a: "valid_query req userUid loc \<and> fetch [JStr userUid] = Inr questions"
  then have v: "valid_query req userUid loc" and f: "fetch [JStr userUid] = Inr questions"
    by simp_all
  have c: "json_data (JArr xs) \<Longrightarrow> JSON_stringify (JArr xs) = JArr xs"
    by (rule JSON_stringify_json_data)
  have n: "\<not> truthy questions \<longrightarrow>
        fst (GET fetch req)
          = \<lparr>json = JObj [(''error'', JStr ''Quiz questions not found'')], status = 404\<rparr>"
    by (simp add: GET_valid [OF v] f NextResponse_json_def error_obj_def)
  have y: "questions = JArr xs \<longrightarrow>
        fst (GET fetch req) = \<lparr>json = JSON_stringify (JArr xs), status = 200\<rparr>"
    by (simp add: GET_valid [OF v] f NextResponse_json_def)
  have u: "questions = JArr xs \<and> json_data (JArr xs) \<longrightarrow>
        fst (GET fetch req) = \<lparr>json = JArr xs, status = 200\<rparr>"
    using y c by auto
  from n y u show "(\<not> truthy questions \<longrightarrow>
        fst (GET fetch req)
          = \<lparr>json = JObj [(''error'', JStr ''Quiz questions not found'')], status = 404\<rparr>)
     \<and> (questions = JArr xs \<longrightarrow>
        fst (GET fetch req) = \<lparr>json = JSON_stringify (JArr xs), status = 200\<rparr>)
     \<and> (questions = JArr xs \<and> json_data (JArr xs) \<longrightarrow>
        fst (GET fetch req) = \<lparr>json = JArr xs, status = 200\<rparr>)"
    by blast
qed

text \<open>A collaborator that returns \<^verbatim>\<open>null\<close>, one that returns two articles, and one that
  returns \<^verbatim>\<open>[undefined, NaN]\<close>, which is sent as \<^verbatim>\<open>[null, null]\<close>.\<close>

theorem GET_found_or_not_found_witness:
  "valid_query get_ok ''u1'' ''en''
   \<and> fetch_null [JStr ''u1''] = Inr JNull
   \<and> fst (GET fetch_null get_ok)
       = \<lparr>json = JObj [(''error'', JStr ''Quiz questions not found'')], status = 404\<rparr>
   \<and> fetch_two [JStr ''u1''] = Inr two_questions
   \<and> json_data two_questions
   \<and> fst (GET fetch_two get_ok) = \<lparr>json = two_questions, status = 200\<rparr>
   \<and> fetch_gaps [JStr ''u1''] = Inr (JArr [JUndefined, JNum NaN])
   \<and> fst (GET fetch_gaps get_ok) = \<lparr>json = JArr [JNull, JNull], status = 200\<rparr>"
  using GET_found_or_not_found [where req = get_ok and userUid = "''u1''" and loc = "''en''"
      and fetch = fetch_null and questions = JNull]
    GET_found_or_not_found [where req = get_ok and userUid = "''u1''" and loc = "''en''"
      and fetch = fetch_two and questions = two_questions
      and xs = "[JObj [(''uid'', JStr ''a1''), (''headline'', JStr ''h1''), (''content'', JStr ''c1'')],
                 JObj [(''uid'', JStr ''a2''), (''headline'', JStr ''h2''), (''content'', JStr ''c2'')]]"]
    GET_found_or_not_found [where req = get_ok and userUid = "''u1''" and loc = "''en''"
      and fetch = fetch_gaps and questions = "JArr [JUndefined, JNum NaN]"
      and xs = "[JUndefined, JNum NaN]"]
  by (simp add: valid_query_def get_ok_def fetch_null_def fetch_two_def fetch_gaps_def
      two_questions_def)

text \<open>
  The claim as the specification states it has 404 for an empty collection. The handler
  tests \<^verbatim>\<open>!questions\<close>, and an empty array is truthy: it is sent back with 200.
\<close>

theorem GET_empty_array_counterexample:
  "valid_query get_ok ''u1'' ''en''
   \<and> fetch_empty [JStr ''u1''] = Inr (JArr [])
   \<and> GET fetch_empty get_ok
       = (\<lparr>json = JArr [], status = 200\<rparr>, [FetchArticlesForUser [JStr ''u1'']])
   \<and> status (fst (GET fetch_empty get_ok)) \<noteq> 404"
  by (simp add: valid_query_def get_ok_def fetch_empty_def GET_def GET_try_def searchParams_truthy_def
      searchParams_get_def NextResponse_json_def Let_def)

section \<open>POST\<close>

text \<open>
  Claim C1, as amended. POST applies its validations in the order of the list, and the
  first that fails decides the response, before \<^verbatim>\<open>storeUserResponse\<close> is called: the query
  object, \<^verbatim>\<open>userUid\<close> present and a string, the body present (\<^verbatim>\<open>req.body\<close> not
  \<^verbatim>\<open>null\<close>), \<^verbatim>\<open>articleUid\<close> present and a string, \<^verbatim>\<open>userRespondedIsHuman\<close> a boolean,
  \<^verbatim>\<open>userRespondedIsFake\<close> a boolean, \<^verbatim>\<open>timeToRespond\<close> a number. Each of these failures is a
  400 with the message of its check. A body that is present and is not JSON, or is the
  JSON \<^verbatim>\<open>null\<close>, fails none of them: reading it throws after the check of its presence
  and before the checks of its fields, and the response is the 500 of the \<^verbatim>\<open>catch\<close>
  clause. When no entry of the list fails, the collaborator is called once, with the
  five fields.
\<close>

theorem POST_validations_in_order:
  "(first_failing (POST_checks req) = Some r \<longrightarrow>
        POST store req = (r, []) \<and> (status r = 400 \<or> r = internal_server_error))
   \<and> (first_failing (POST_checks req) = None \<longrightarrow>
        snd (POST store req) = [StoreUserResponse [submitted req]])
   \<and> (map_of (url_searchParams req) ''userUid'' = Some userUid \<and> userUid \<noteq> []
        \<and> (body req = Some NotJson \<or> body req = Some (JsonText JNull))
      \<longrightarrow> POST store req = (internal_server_error, []))"
proof (intro conjI impI)
  assume "first_failing (POST_checks req) = Some r"
  then show "POST store req = (r, [])"
    by (simp add: POST_after_checks)
next
  assume "first_failing (POST_checks req) = Some r"
  then show "status r = 400 \<or> r = internal_server_error"
    using first_failing_status [of req r] by blast
next
  assume "first_failing (POST_checks req) = None"
  then show "snd (POST store req) = [StoreUserResponse [submitted req]]"
    by (simp add: POST_after_checks split: sum.splits)
next
  assume a: "map_of (url_searchParams req) ''userUid'' = Some userUid \<and> userUid \<noteq> []
        \<and> (body req = Some NotJson \<or> body req = Some (JsonText JNull))"
  then have "first_failing (POST_checks req) = Some internal_server_error"
    by (auto simp add: first_failing_def POST_checks_def Let_def searchParams_truthy_def
        searchParams_get_def parsed_body_def)
  then show "POST store req = (internal_server_error, [])"
    by (simp add: POST_after_checks)
qed

text \<open>One request for each failure, in the order of the list, and one that passes.\<close>

theorem POST_validations_in_order_witness:
  "POST store_true post_no_userUid = (bad_request ''User ID is required'', [])
   \<and> POST store_true post_no_body = (bad_request ''Invalid request body'', [])
   \<and> POST store_true post_no_article = (bad_request ''Article ID is required'', [])
   \<and> POST store_true post_article_number = (bad_request ''Invalid Article ID'', [])
   \<and> POST store_true post_human_string = (bad_request ''Invalid user response'', [])
   \<and> POST store_true post_fake_string = (bad_request ''Invalid user response'', [])
   \<and> POST store_true post_time_string = (bad_request ''Invalid time to respond'', [])
   \<and> POST store_true post_not_json = (internal_server_error, [])
   \<and> POST store_true post_null = (internal_server_error, [])
   \<and> snd (POST store_true post_ok)
       = [StoreUserResponse [user_response (JStr ''u1'') (JStr ''a1'') (JBool True) (JBool False)
            (JNum (Finite 1500))]]"
  using POST_validations_in_order [where req = post_no_userUid and store = store_true
      and r = "bad_request ''User ID is required''" and userUid = "''u1''"]
    POST_validations_in_order [where req = post_no_body and store = store_true
      and r = "bad_request ''Invalid request body''" and userUid = "''u1''"]
    POST_validations_in_order [where req = post_no_article and store = store_true
      and r = "bad_request ''Article ID is required''" and userUid = "''u1''"]
    POST_validations_in_order [where req = post_article_number and store = store_true
      and r = "bad_request ''Invalid Article ID''" and userUid = "''u1''"]
    POST_validations_in_order [where req = post_human_string and store = store_true
      and r = "bad_request ''Invalid user response''" and userUid = "''u1''"]
    POST_validations_in_order [where req = post_fake_string and store = store_true
      and r = "bad_request ''Invalid user response''" and userUid = "''u1''"]
    POST_validations_in_order [where req = post_time_string and store = store_true
      and r = "bad_request ''Invalid time to respond''" and userUid = "''u1''"]
    POST_validations_in_order [where req = post_not_json and store = store_true
      and r = "internal_server_error" and userUid = "''u1''"]
    POST_validations_in_order [where req = post_null and store = store_true
      and r = "internal_server_error" and userUid = "''u1''"]
    POST_validations_in_order [where req = post_ok and store = store_true
      and r = "internal_server_error" and userUid = "''u1''"]
  by (simp add: ff_post_no_userUid ff_post_no_body ff_post_no_article ff_post_article_number
      ff_post_human_string ff_post_fake_string ff_post_time_string ff_post_ok submitted_post_ok
      post_not_json_def post_null_def post_with_def)

text \<open>
  The claim as the specification states it has 400 for a body that is present and not
  parseable. The handler has no check for it: \<^verbatim>\<open>req.json()\<close> throws inside the \<^verbatim>\<open>try\<close>
  block and the response is 500.
\<close>

theorem POST_not_json_counterexample:
  "body post_not_json = Some NotJson
   \<and> POST store_true post_not_json
       = (\<lparr>json = JObj [(''error'', JStr ''Internal Server Error'')], status = 500\<rparr>, [])
   \<and> status (fst (POST store_true post_not_json)) \<noteq> 400"
  by (simp add: POST_def POST_try_def Let_def searchParams_truthy_def searchParams_get_def
      post_not_json_def NextResponse_json_def error_obj_def)



text \<open>
  Claim C7, as amended. For a POST request whose body is JSON, not \<^verbatim>\<open>null\<close>, with a
  \<^verbatim>\<open>timeToRespond\<close> that is not a number (a string, or missing): the response is always a
  400 and nothing is stored. Its message is "Invalid time to respond" exactly when the
  checks before it pass, that is when \<^verbatim>\<open>userUid\<close> is present and not empty, \<^verbatim>\<open>articleUid\<close>
  is a non-empty string and the two answers are booleans; otherwise the message is that
  of the first of those checks that fails: "User ID is required", "Article ID is
  required", "Invalid Article ID" or "Invalid user response", in this order.
\<close>

theorem POST_time_not_number:
  "body req = Some (JsonText parsed) \<and> destructurable parsed
   \<and> typeof (get_prop parsed ''timeToRespond'') \<noteq> ''number''
   \<longrightarrow>
     status (fst (POST store req)) = 400
     \<and> snd (POST store req) = []
     \<and> ((fst (POST store req) = bad_request ''Invalid time to respond'')
         = (truthy (searchParams_get (url_searchParams req) ''userUid'')
            \<and> truthy (get_prop parsed ''articleUid'')
            \<and> typeof (get_prop parsed ''articleUid'') = ''string''
            \<and> typeof (get_prop parsed ''userRespondedIsHuman'') = ''boolean''
            \<and> typeof (get_prop parsed ''userRespondedIsFake'') = ''boolean''))
     \<and> json (fst (POST store req))
         = JObj [(''error'', JStr
             (if \<not> truthy (searchParams_get (url_searchParams req) ''userUid'')
                then ''User ID is required''
              else if \<not> truthy (get_prop parsed ''articleUid'')
                then ''Article ID is required''
              else if typeof (get_prop parsed ''articleUid'') \<noteq> ''string''
                then ''Invalid Article ID''
              else if typeof (get_prop parsed ''userRespondedIsHuman'') \<noteq> ''boolean''
                then ''Invalid user response''
              else if typeof (get_prop parsed ''userRespondedIsFake'') \<noteq> ''boolean''
                then ''Invalid user response''
              else ''Invalid time to respond''))]"
proof (intro impI)
  assume a: "body req = Some (JsonText parsed) \<and> destructurable parsed
   \<and> typeof (get_prop parsed ''timeToRespond'') \<noteq> ''number''"
  then have p: "parsed_body req = parsed"
    by (simp add: parsed_body_def)
  from a p have one: "status (fst (POST store req)) = 400
     \<and> snd (POST store req) = []
     \<and> ((fst (POST store req) = bad_request ''Invalid time to respond'')
         = (truthy (searchParams_get (url_searchParams req) ''userUid'')
            \<and> truthy (get_prop parsed ''articleUid'')
            \<and> typeof (get_prop parsed ''articleUid'') = ''string''
            \<and> typeof (get_prop parsed ''userRespondedIsHuman'') = ''boolean''
            \<and> typeof (get_prop parsed ''userRespondedIsFake'') = ''boolean''))"
    by (simp add: POST_after_checks first_failing_def POST_checks_def Let_def
        searchParams_truthy_def bad_request_inject status_bad_request typeof_searchParams_get)
  from a p have two: "json (fst (POST store req))
         = JObj [(''error'', JStr
             (if \<not> truthy (searchParams_get (url_searchParams req) ''userUid'')
                then ''User ID is required''
              else if \<not> truthy (get_prop parsed ''articleUid'')
                then ''Article ID is required''
              else if typeof (get_prop parsed ''articleUid'') \<noteq> ''string''
                then ''Invalid Article ID''
              else if typeof (get_prop parsed ''userRespondedIsHuman'') \<noteq> ''boolean''
                then ''Invalid user response''
              else if typeof (get_prop parsed ''userRespondedIsFake'') \<noteq> ''boolean''
                then ''Invalid user response''
              else ''Invalid time to respond''))]"
    by (simp add: POST_after_checks first_failing_def POST_checks_def Let_def
        searchParams_truthy_def json_bad_request typeof_searchParams_get)
  from one two show "status (fst (POST store req)) = 400
     \<and> snd (POST store req) = []
     \<and> ((fst (POST store req) = bad_request ''Invalid time to respond'')
         = (truthy (searchParams_get (url_searchParams req) ''userUid'')
            \<and> truthy (get_prop parsed ''articleUid'')
            \<and> typeof (get_prop parsed ''articleUid'') = ''string''
            \<and> typeof (get_prop parsed ''userRespondedIsHuman'') = ''boolean''
            \<and> typeof (get_prop parsed ''userRespondedIsFake'') = ''boolean''))
     \<and> json (fst (POST store req))
         = JObj [(''error'', JStr
             (if \<not> truthy (searchParams_get (url_searchParams req) ''userUid'')
                then ''User ID is required''
              else if \<not> truthy (get_prop parsed ''articleUid'')
                then ''Article ID is required''
              else if typeof (get_prop parsed ''articleUid'') \<noteq> ''string''
                then ''Invalid Article ID''
              else if typeof (get_prop parsed ''userRespondedIsHuman'') \<noteq> ''boolean''
                then ''Invalid user response''
              else if typeof (get_prop parsed ''userRespondedIsFake'') \<noteq> ''boolean''
                then ''Invalid user response''
              else ''Invalid time to respond''))]"
    by blast
qed

text \<open>A string \<^verbatim>\<open>timeToRespond\<close> with the other fields valid, one with no
  \<^verbatim>\<open>articleUid\<close>, and one with a string \<^verbatim>\<open>userRespondedIsHuman\<close>.\<close>

theorem POST_time_not_number_witness:
  "body post_time_string
     = Some (JsonText (answer (JStr ''a1'') (JBool True) (JBool False) (JStr ''1500'')))
   \<and> destructurable (answer (JStr ''a1'') (JBool True) (JBool False) (JStr ''1500''))
   \<and> typeof (get_prop (answer (JStr ''a1'') (JBool True) (JBool False) (JStr ''1500''))
         ''timeToRespond'') = ''string''
   \<and> fst (POST store_true post_time_string) = bad_request ''Invalid time to respond''
   \<and> json (fst (POST store_true post_time_string))
       = JObj [(''error'', JStr ''Invalid time to respond'')]
   \<and> snd (POST store_true post_time_string) = []
   \<and> body post_no_article = Some (JsonText (JObj [(''timeToRespond'', JStr ''1500'')]))
   \<and> status (fst (POST store_true post_no_article)) = 400
   \<and> json (fst (POST store_true post_no_article))
       = JObj [(''error'', JStr ''Article ID is required'')]
   \<and> body post_human_time_strings
     = Some (JsonText (answer (JStr ''a1'') (JStr ''yes'') (JBool False) (JStr ''1500'')))
   \<and> status (fst (POST store_true post_human_time_strings)) = 400
   \<and> json (fst (POST store_true post_human_time_strings))
       = JObj [(''error'', JStr ''Invalid user response'')]"
  using POST_time_not_number [where req = post_time_string and store = store_true
      and parsed = "answer (JStr ''a1'') (JBool True) (JBool False) (JStr ''1500'')"]
    POST_time_not_number [where req = post_no_article and store = store_true
      and parsed = "JObj [(''timeToRespond'', JStr ''1500'')]"]
    POST_time_not_number [where req = post_human_time_strings and store = store_true
      and parsed = "answer (JStr ''a1'') (JStr ''yes'') (JBool False) (JStr ''1500'')"]
  by (simp add: post_time_string_def post_no_article_def post_human_time_strings_def
      post_with_def answer_def searchParams_get_def json_bad_request)

text \<open>
  The claim as the specification states it has the message "Invalid time to respond"
  whether or not the other fields are valid. Here \<^verbatim>\<open>timeToRespond\<close> is a string and
  \<^verbatim>\<open>userRespondedIsFake\<close> is one too: the earlier check wins and the message is "Invalid
  user response".
\<close>

theorem POST_time_not_number_counterexample:
  "body post_fake_string
     = Some (JsonText (JObj [(''articleUid'', JStr ''a1''),
                             (''userRespondedIsHuman'', JBool True),
                             (''userRespondedIsFake'', JStr ''no''),
                             (''timeToRespond'', JStr ''1500'')]))
   \<and> fst (POST store_true post_fake_string)
       = \<lparr>json = JObj [(''error'', JStr ''Invalid user response'')], status = 400\<rparr>
   \<and> json (fst (POST store_true post_fake_string))
       \<noteq> JObj [(''error'', JStr ''Invalid time to respond'')]"
  by (simp add: POST_def POST_try_def Let_def searchParams_truthy_def searchParams_get_def
      post_fake_string_def post_with_def answer_def NextResponse_json_def error_obj_def)

text \<open>
  Claim C10. A POST request answered with 400 makes no call of \<^verbatim>\<open>storeUserResponse\<close>.
  The handler calls it only after every validation has passed, and then once, with the
  five validated fields.
\<close>

theorem no_store_on_bad_request:
  "(status (fst (POST store req)) = 400 \<longrightarrow> snd (POST store req) = [])
   \<and> (snd (POST store req) \<noteq> [] \<longrightarrow>
        first_failing (POST_checks req) = None
        \<and> snd (POST store req) = [StoreUserResponse [submitted req]]
        \<and> (\<exists>userUid articleUid isHuman isFake t.
              valid_submission req userUid articleUid isHuman isFake t))"
proof (cases "first_failing (POST_checks req)")
  case None
  then have "\<exists>userUid articleUid isHuman isFake t.
      valid_submission req userUid articleUid isHuman isFake t"
    by (simp add: valid_submission_checks)
  with None show ?thesis
    by (simp add: POST_after_checks NextResponse_json_def internal_server_error_def
        split: sum.splits)
next
  case (Some r)
  then show ?thesis
    by (simp add: POST_after_checks)
qed

theorem no_store_on_bad_request_witness:
  "status (fst (POST store_true post_time_string)) = 400
   \<and> snd (POST store_true post_time_string) = []
   \<and> snd (POST store_true post_ok) \<noteq> []
   \<and> snd (POST store_true post_ok)
       = [StoreUserResponse [user_response (JStr ''u1'') (JStr ''a1'') (JBool True) (JBool False)
            (JNum (Finite 1500))]]"
proof -
  have "snd (POST store_true post_time_string) = []"
    using status_post_time_string no_store_on_bad_request [of store_true post_time_string]
    by blast
  moreover have "snd (POST store_true post_ok) = [StoreUserResponse [submitted post_ok]]"
    using calls_post_ok no_store_on_bad_request [of store_true post_ok]
    by blast
  ultimately show ?thesis
    using status_post_time_string calls_post_ok by (simp add: submitted_post_ok)
qed

section \<open>Failures in either handler\<close>

text \<open>
  Claim C8. In both handlers every throw of the \<^verbatim>\<open>try\<close> block, whatever the value thrown,
  is caught and answered with status 500 and the body \<^verbatim>\<open>{error: "Internal Server Error"}\<close>,
  which holds nothing of what was thrown. That covers a collaborator that throws on a
  request that passed validation. And no other response has status 500: a response of
  either handler with status 500 is exactly that one.
\<close>

theorem failures_are_flattened_to_500:
  "(GET_try fetch greq = (Inl e, calls) \<longrightarrow> GET fetch greq = (internal_server_error, calls))
   \<and> (POST_try store preq = (Inl e, calls) \<longrightarrow> POST store preq = (internal_server_error, calls))
   \<and> (valid_query greq userUid loc \<and> fetch [JStr userUid] = Inl e
        \<longrightarrow> fst (GET fetch greq) = internal_server_error)
   \<and> (valid_submission preq userUid articleUid isHuman isFake t
        \<and> store [user_response (JStr userUid) (JStr articleUid) (JBool isHuman) (JBool isFake)
                   (JNum t)] = Inl e
        \<longrightarrow> fst (POST store preq) = internal_server_error)
   \<and> (status (fst (GET fetch greq)) = 500 \<longrightarrow> fst (GET fetch greq) = internal_server_error)
   \<and> (status (fst (POST store preq)) = 500 \<longrightarrow> fst (POST store preq) = internal_server_error)"
proof (intro conjI impI)
  assume "GET_try fetch greq = (Inl e, calls)"
  then show "GET fetch greq = (internal_server_error, calls)"
    by (simp add: GET_def internal_server_error_def)
next
  assume "POST_try store preq = (Inl e, calls)"
  then show "POST store preq = (internal_server_error, calls)"
    by (simp add: POST_def internal_server_error_def)
next
  assume "valid_query greq userUid loc \<and> fetch [JStr userUid] = Inl e"
  then show "fst (GET fetch greq) = internal_server_error"
    by (simp add: GET_valid [of greq userUid loc])
next
  assume "valid_submission preq userUid articleUid isHuman isFake t
        \<and> store [user_response (JStr userUid) (JStr articleUid) (JBool isHuman) (JBool isFake)
                   (JNum t)] = Inl e"
  then show "fst (POST store preq) = internal_server_error"
    by (simp add: POST_valid [of preq userUid articleUid isHuman isFake t])
next
  assume "status (fst (GET fetch greq)) = 500"
  then show "fst (GET fetch greq) = internal_server_error"
    by (simp add: GET_def GET_try_def Let_def searchParams_truthy_def NextResponse_json_def
        internal_server_error_def split: if_splits sum.splits)
next
  assume s: "status (fst (POST store preq)) = 500"
  show "fst (POST store preq) = internal_server_error"
  proof (cases "first_failing (POST_checks preq)")
    case None
    with s show ?thesis
      by (simp add: POST_after_checks NextResponse_json_def split: sum.splits if_splits)
  next
    case (Some r)
    with s show ?thesis
      by (simp add: POST_after_checks status_first_failing)
  qed
qed

theorem failures_are_flattened_to_500_witness:
  "GET fetch_throws get_ok = (internal_server_error, [FetchArticlesForUser [JStr ''u1'']])
   \<and> POST store_true post_not_json = (internal_server_error, [])
   \<and> valid_submission post_ok ''u1'' ''a1'' True False (Finite 1500)
   \<and> fst (POST store_throws post_ok) = internal_server_error
   \<and> internal_server_error
       = \<lparr>json = JObj [(''error'', JStr ''Internal Server Error'')], status = 500\<rparr>"
proof -
  have s: "store_throws [user_response (JStr ''u1'') (JStr ''a1'') (JBool True) (JBool False)
             (JNum (Finite 1500))] = Inl (Thrown (JStr ''duplicate key in responses''))"
    by (simp add: store_throws_def)
  have "GET fetch_throws get_ok = (internal_server_error, [FetchArticlesForUser [JStr ''u1'']])"
    using GET_try_throws
      failures_are_flattened_to_500 [where fetch = fetch_throws and greq = get_ok
        and e = "Thrown (JStr ''connection refused by db-3'')"
        and calls = "[FetchArticlesForUser [JStr ''u1'']]"]
    by blast
  moreover have "POST store_true post_not_json = (internal_server_error, [])"
    using POST_try_not_json
      failures_are_flattened_to_500 [where store = store_true and preq = post_not_json
        and e = SyntaxError and calls = "[]"]
    by blast
  moreover have "fst (POST store_throws post_ok) = internal_server_error"
    using valid_post_ok s
      failures_are_flattened_to_500 [where store = store_throws and preq = post_ok
        and userUid = "''u1''" and articleUid = "''a1''" and isHuman = True and isFake = False
        and t = "Finite 1500" and e = "Thrown (JStr ''duplicate key in responses'')"]
    by blast
  moreover have "internal_server_error
       = \<lparr>json = JObj [(''error'', JStr ''Internal Server Error'')], status = 500\<rparr>"
    by (simp add: internal_server_error_def NextResponse_json_def error_obj_def)
  ultimately show ?thesis
    using valid_post_ok by blast
qed

end
